theory Spec2Isabelle
  imports Main "HOL-Library.Sublist"
begin

section \<open>JavaScript values\<close>

text \<open>
  The front end is JavaScript. The values the handlers inspect are primitives (object ids,
  record fields, fields of a server reply), objects whose fields are primitives (an
  application record, an identity, a form's data) and arrays of such objects (the reply of
  the list endpoint). A missing field reads as \<open>undefined\<close>.
\<close>

datatype jsval = JUndefined | JNull | JBool bool | JNum int | JStr string

type_synonym jsobj = "string \<rightharpoonup> jsval"

datatype jsdata = Prim jsval | Obj jsobj | Arr "jsobj list"

text \<open>
  A thrown value. \<open>TypeError\<close> and \<open>SyntaxError\<close> are raised by the engine, with the
  engine's wording as message; \<open>Error\<close> is \<open>new Error(message)\<close>.
\<close>

datatype js_error = TypeError string | SyntaxError string | Error string

fun message :: "js_error \<Rightarrow> string" where
  "message (TypeError m) = m"
| "message (SyntaxError m) = m"
| "message (Error m) = m"

text \<open>Truthiness, as \<open>if (v)\<close>, \<open>a && b\<close> and \<open>a || b\<close> test it.\<close>

fun truthy :: "jsval \<Rightarrow> bool" where
  "truthy JUndefined = False"
| "truthy JNull = False"
| "truthy (JBool b) = b"
| "truthy (JNum n) = (n \<noteq> 0)"
| "truthy (JStr s) = (s \<noteq> [])"

text \<open>
  \<open>localStorage.getItem\<close> and \<open>URLSearchParams.get\<close> answer \<open>null\<close> (here \<open>None\<close>) or a
  string; of these only a non-empty string is truthy.
\<close>

definition truthy_str :: "string option \<Rightarrow> bool" where
  "truthy_str v = (case v of None \<Rightarrow> False | Some s \<Rightarrow> s \<noteq> [])"

text \<open>\<open>o.k\<close> on an object.\<close>

definition field :: "jsobj \<Rightarrow> string \<Rightarrow> jsval" where
  "field ob k = (case ob k of None \<Rightarrow> JUndefined | Some v \<Rightarrow> v)"

text \<open>
  \<open>d.k\<close> on any value: reading a property of \<open>null\<close> or \<open>undefined\<close> throws a TypeError;
  the other primitives and arrays have none of the properties the code reads
  (\<open>id\<close>, \<open>name\<close>, \<open>email\<close>, \<open>error\<close>, \<open>authorization_url\<close>).
\<close>

fun get_prop :: "jsdata \<Rightarrow> string \<Rightarrow> js_error + jsval" where
  "get_prop (Prim JUndefined) k = Inl (TypeError ''Cannot read properties of undefined'')"
| "get_prop (Prim JNull) k = Inl (TypeError ''Cannot read properties of null'')"
| "get_prop (Prim v) k = Inr JUndefined"
| "get_prop (Arr xs) k = Inr JUndefined"
| "get_prop (Obj ob) k = Inr (field ob k)"

text \<open>\<open>d?.k\<close>: optional chaining answers \<open>undefined\<close> where \<open>d.k\<close> would throw.\<close>

definition get_prop_opt :: "jsdata \<Rightarrow> string \<Rightarrow> jsval" where
  "get_prop_opt d k = (case get_prop d k of Inl e \<Rightarrow> JUndefined | Inr v \<Rightarrow> v)"

text \<open>Decimal digits of a natural number, and \<open>String(v)\<close> on a primitive.\<close>

fun digits :: "nat \<Rightarrow> string" where
  "digits n =
     (if n < 10 then [''0123456789'' ! n] else digits (n div 10) @ [''0123456789'' ! (n mod 10)])"

declare digits.simps [simp del]

fun js_to_string :: "jsval \<Rightarrow> string" where
  "js_to_string JUndefined = ''undefined''"
| "js_to_string JNull = ''null''"
| "js_to_string (JBool b) = (if b then ''true'' else ''false'')"
| "js_to_string (JNum n) = (if n < 0 then CHR ''-'' # digits (nat (- n)) else digits (nat n))"
| "js_to_string (JStr s) = s"

section \<open>The browser and the application state\<close>

text \<open>
  \<open>window.location\<close>: the path and the query string, the latter as the list of its
  \<open>name=value\<close> pairs. \<open>URLSearchParams.get\<close> answers the first value of a name.
\<close>

record location =
  pathname :: string
  search :: "(string \<times> string) list"

definition url_get :: "(string \<times> string) list \<Rightarrow> string \<Rightarrow> string option" where
  "url_get q k = map_of q k"

text \<open>The calls of the remote client (\<open>services/api.js\<close>), with their arguments.\<close>

datatype endpoint =
    AuthRegister jsobj | AuthLogin jsobj | GetGoogleAuthUrl | GetMicrosoftAuthUrl
  | ApplicationsGetAll jsval | ApplicationsAdd jsobj
  | ApplicationsUpdate jsval jsobj | ApplicationsDelete jsval
  | GetProfile jsval | UpdateProfile jsval jsobj
  | EmailGetAll | ConnectGmail | ConnectMicrosoft
  | SyncAccount jsval | GetStatus jsval | DisconnectAccount jsval
  | HealthCheck

text \<open>A request that was sent: the call and the bearer token attached to it, if any.\<close>

record request =
  call :: endpoint
  bearer :: "string option"

text \<open>The state of \<open>App\<close> (its six \<open>useState\<close> cells).\<close>

record app_state =
  currentPage :: string
  isAuthenticated :: bool
  user :: jsdata
  applications :: "jsobj list"
  isLoading :: bool
  error :: string

text \<open>The state of the \<open>Applications\<close> page that its handlers write.\<close>

record page_state =
  isLoading_page :: bool
  error_page :: string

text \<open>
  Everything a handler reads or writes: the state of \<open>App\<close> and of the page,
  \<open>localStorage\<close>, \<open>window.location\<close>, the number of document loads started by
  assigning \<open>window.location.href\<close> (\<open>history.replaceState\<close> starts none), the
  absolute URL of another site the window was sent to, if any, the requests sent so far,
  newest first, and the error cell of the \<open>OAuthCallback\<close> component. The storage is
  taken to be available: reading, writing and removing a key do not throw.
\<close>

record world =
  app :: app_state
  page :: page_state
  localStorage :: "string \<rightharpoonup> string"
  window_location :: location
  page_loads :: nat
  navigated_to :: "string option"
  fetches :: "request list"
  oauth_error :: string

definition initial_app :: app_state where
  "initial_app = \<lparr>currentPage = ''dashboard'', isAuthenticated = False, user = Prim JNull,
     applications = [], isLoading = False, error = ''''\<rparr>"

definition setCurrentPage :: "string \<Rightarrow> world \<Rightarrow> world" where
  "setCurrentPage p w = w\<lparr>app := (app w)\<lparr>currentPage := p\<rparr>\<rparr>"

definition removeItem :: "string \<Rightarrow> world \<Rightarrow> world" where
  "removeItem k w = w\<lparr>localStorage := (localStorage w)(k := None)\<rparr>"

definition setItem :: "string \<Rightarrow> string \<Rightarrow> world \<Rightarrow> world" where
  "setItem k v w = w\<lparr>localStorage := (localStorage w)(k \<mapsto> v)\<rparr>"

text \<open>\<open>window.history.replaceState({}, title, path)\<close> with a path that has no query.\<close>

definition replaceState :: "string \<Rightarrow> world \<Rightarrow> world" where
  "replaceState p w = w\<lparr>window_location := \<lparr>pathname = p, search = []\<rparr>\<rparr>"

text \<open>\<open>window.location.href = path\<close>: the location changes and the document is loaded anew.\<close>

definition assign_href :: "string \<Rightarrow> world \<Rightarrow> world" where
  "assign_href p w = w\<lparr>window_location := \<lparr>pathname = p, search = []\<rparr>,
     page_loads := Suc (page_loads w)\<rparr>"

section \<open>Session store: logout\<close>

definition handleLogout :: "world \<Rightarrow> world" where
  "handleLogout w =
     removeItem ''user'' (removeItem ''auth_token''
       (w\<lparr>app := (app w)\<lparr>user := Prim JNull, isAuthenticated := False,
             currentPage := ''login'', applications := [], error := ''''\<rparr>\<rparr>))"

section \<open>Page router\<close>

datatype component = Dashboard | Applications | Profile | OAuthCallback

datatype view = Login | Register | Layout component

definition renderPage :: "string \<Rightarrow> component" where
  "renderPage p =
     (if p = ''dashboard'' then Dashboard
      else if p = ''applications'' then Applications
      else if p = ''profile'' then Profile
      else if p = ''oauth-callback'' then OAuthCallback
      else Dashboard)"

definition render :: "app_state \<Rightarrow> view" where
  "render s =
     (if \<not> isAuthenticated s \<and> currentPage s \<noteq> ''oauth-callback''
      then (if currentPage s = ''login'' then Login else Register)
      else Layout (renderPage (currentPage s)))"

section \<open>Remote client\<close>

text \<open>
  What \<open>fetch\<close> resolves with: the status and the body, \<open>None\<close> when the body is not
  JSON (then \<open>response.json()\<close> rejects). \<open>response.ok\<close> is the status being in 200..299.
\<close>

record response =
  status :: nat
  body :: "jsdata option"

definition ok :: "response \<Rightarrow> bool" where
  "ok r = (200 \<le> status r \<and> status r \<le> 299)"

definition response_json :: "response \<Rightarrow> js_error + jsdata" where
  "response_json r =
     (case body r of None \<Rightarrow> Inl (SyntaxError ''Unexpected end of JSON input'') | Some d \<Rightarrow> Inr d)"

text \<open>\<open>new Error(error.error || 'Something went wrong')\<close>, thrown.\<close>

definition thrown_error :: "jsdata \<Rightarrow> js_error" where
  "thrown_error err =
     (case get_prop err ''error'' of
        Inl e \<Rightarrow> e
      | Inr m \<Rightarrow> Error (if truthy m then js_to_string m else ''Something went wrong''))"

text \<open>\<open>handleResponse\<close> of the client that attaches the token (it reads \<open>auth_token\<close>).\<close>

definition handleResponse :: "response \<Rightarrow> world \<Rightarrow> (js_error + jsdata) \<times> world" where
  "handleResponse r w =
     (if \<not> ok r then
        (let w1 = (if status r = 401
                   then assign_href ''/login'' (removeItem ''user'' (removeItem ''auth_token'' w))
                   else w)
         in (case response_json r of
               Inl e \<Rightarrow> (Inl e, w1)
             | Inr err \<Rightarrow> (Inl (thrown_error err), w1)))
      else (response_json r, w))"

text \<open>
  \<open>handleResponse\<close> of the older copy of the client, \<open>Frontend/src/services/api.js\<close>,
  which knows no token.
\<close>

definition handleResponse_legacy :: "response \<Rightarrow> world \<Rightarrow> (js_error + jsdata) \<times> world" where
  "handleResponse_legacy r w =
     (if \<not> ok r then
        (case response_json r of
           Inl e \<Rightarrow> (Inl e, w)
         | Inr err \<Rightarrow> (Inl (thrown_error err), w))
      else (response_json r, w))"

definition getToken :: "world \<Rightarrow> string option" where
  "getToken w = localStorage w ''auth_token''"

definition authenticatedFetch :: "endpoint \<Rightarrow> world \<Rightarrow> world" where
  "authenticatedFetch c w =
     w\<lparr>fetches := \<lparr>call = c, bearer = (if truthy_str (getToken w) then getToken w else None)\<rparr>
                    # fetches w\<rparr>"

definition fetch :: "endpoint \<Rightarrow> world \<Rightarrow> world" where
  "fetch c w = w\<lparr>fetches := \<lparr>call = c, bearer = None\<rparr> # fetches w\<rparr>"

text \<open>Sending: the calls of \<open>authAPI\<close> and \<open>healthAPI\<close> use plain \<open>fetch\<close>.\<close>

fun api_send :: "endpoint \<Rightarrow> world \<Rightarrow> world" where
  "api_send (AuthRegister d) w = fetch (AuthRegister d) w"
| "api_send (AuthLogin d) w = fetch (AuthLogin d) w"
| "api_send GetGoogleAuthUrl w = fetch GetGoogleAuthUrl w"
| "api_send GetMicrosoftAuthUrl w = fetch GetMicrosoftAuthUrl w"
| "api_send HealthCheck w = fetch HealthCheck w"
| "api_send c w = authenticatedFetch c w"

text \<open>
  \<open>connectGmail\<close> and \<open>connectMicrosoft\<close> go on after \<open>handleResponse\<close> has returned: they
  send the window to \<open>data.authorization_url\<close> when there is one.
\<close>

definition redirect_to_authorization ::
  "(js_error + jsdata) \<times> world \<Rightarrow> (js_error + jsdata) \<times> world" where
  "redirect_to_authorization rw =
     (case rw of
        (Inl e, w) \<Rightarrow> (Inl e, w)
      | (Inr d, w) \<Rightarrow>
          (case get_prop d ''authorization_url'' of
             Inl e \<Rightarrow> (Inl e, w)
           | Inr u \<Rightarrow>
               if truthy u
               then (Inr d, w\<lparr>navigated_to := Some (js_to_string u), page_loads := Suc (page_loads w)\<rparr>)
               else (Inr d, w)))"

text \<open>What a call of the client does once \<open>fetch\<close> has resolved with a response.\<close>

fun api_receive :: "endpoint \<Rightarrow> response \<Rightarrow> world \<Rightarrow> (js_error + jsdata) \<times> world" where
  "api_receive ConnectGmail r w = redirect_to_authorization (handleResponse r w)"
| "api_receive ConnectMicrosoft r w = redirect_to_authorization (handleResponse r w)"
| "api_receive c r w = handleResponse r w"

section \<open>Session store: restore and login\<close>

text \<open>
  \<open>loadApplications\<close> of \<open>App\<close>, in its two halves: up to the \<open>await\<close>, and from the
  settled call on (the list endpoint answers with an array of records).
\<close>

definition loadApplications_start :: "jsval \<Rightarrow> world \<Rightarrow> world" where
  "loadApplications_start userId w =
     api_send (ApplicationsGetAll userId) (w\<lparr>app := (app w)\<lparr>isLoading := True\<rparr>\<rparr>)"

definition loadApplications_settled :: "js_error + jsobj list \<Rightarrow> world \<Rightarrow> world" where
  "loadApplications_settled res w =
     (case res of
        Inr userApplications \<Rightarrow>
          w\<lparr>app := (app w)\<lparr>applications := userApplications, isLoading := False\<rparr>\<rparr>
      | Inl e \<Rightarrow> w\<lparr>app := (app w)\<lparr>isLoading := False\<rparr>\<rparr>)"

text \<open>The test both effects of \<open>App\<close> make for the return from connecting an email account.\<close>

definition email_callback_url :: "location \<Rightarrow> bool" where
  "email_callback_url l =
     (pathname l = ''/profile'' \<or> url_get (search l) ''success'' = Some ''email_connected''
      \<or> truthy_str (url_get (search l) ''error''))"

text \<open>
  The \<open>try\<close> block of the mount effect, entered with the stored identity string. It
  answers the exception that left it, if any, and the state reached by then.
  \<open>JSON.parse\<close> is the parameter \<open>parse\<close>, \<open>None\<close> where it throws.
\<close>

definition restore_try ::
  "(string \<Rightarrow> jsdata option) \<Rightarrow> string \<Rightarrow> world \<Rightarrow> js_error option \<times> world" where
  "restore_try parse savedUser w =
     (case parse savedUser of
        None \<Rightarrow> (Some (SyntaxError ''Unexpected token''), w)
      | Some userData \<Rightarrow>
          (let w1 = w\<lparr>app := (app w)\<lparr>user := userData, isAuthenticated := True\<rparr>\<rparr>;
               w2 = (if email_callback_url (window_location w1)
                     then setCurrentPage ''profile'' w1 else w1)
           in (case get_prop userData ''id'' of
                 Inl e \<Rightarrow> (Some e, w2)
               | Inr i \<Rightarrow> (None, if truthy i then loadApplications_start i w2 else w2))))"

text \<open>The mount effect: the exception that escapes it, or the state it leaves.\<close>

definition restore :: "(string \<Rightarrow> jsdata option) \<Rightarrow> world \<Rightarrow> js_error + world" where
  "restore parse w =
     (case (localStorage w ''auth_token'', localStorage w ''user'') of
        (Some token, Some savedUser) \<Rightarrow>
          if token \<noteq> [] \<and> savedUser \<noteq> [] then
            (case restore_try parse savedUser w of
               (None, w') \<Rightarrow> Inr w'
             | (Some err, w') \<Rightarrow> Inr (removeItem ''user'' (removeItem ''auth_token'' w')))
          else Inr w
      | _ \<Rightarrow> Inr w)"

text \<open>
  \<open>handleLogin\<close>; \<open>JSON.stringify\<close> is the parameter \<open>stringify\<close>. An exception in its
  \<open>try\<close> block is logged and goes no further.
\<close>

definition handleLogin :: "(jsdata \<Rightarrow> string) \<Rightarrow> jsdata \<Rightarrow> world \<Rightarrow> world" where
  "handleLogin stringify userData w =
     (let w1 = setItem ''user'' (stringify userData)
                 (w\<lparr>app := (app w)\<lparr>user := userData, isAuthenticated := True,
                       currentPage := ''dashboard''\<rparr>\<rparr>)
      in (case get_prop userData ''id'' of
            Inl e \<Rightarrow> w1
          | Inr i \<Rightarrow> if truthy i then loadApplications_start i w1 else w1))"

section \<open>OAuth resumption\<close>

text \<open>The second effect of \<open>App\<close>, run on mount and whenever \<open>isAuthenticated\<close> changes.\<close>

definition url_effect :: "world \<Rightarrow> world" where
  "url_effect w =
     (let urlParams = search (window_location w) in
      if truthy_str (url_get urlParams ''token'') \<and> truthy_str (url_get urlParams ''user_id'')
      then setCurrentPage ''oauth-callback'' w
      else if email_callback_url (window_location w)
      then (if isAuthenticated (app w)
            then replaceState ''/profile'' (setCurrentPage ''profile'' w)
            else w)
      else w)"

text \<open>The effect of the \<open>OAuthCallback\<close> component, up to the request for the profile.\<close>

definition OAuthCallback_effect :: "world \<Rightarrow> world" where
  "OAuthCallback_effect w =
     (let urlParams = search (window_location w) in
      case (url_get urlParams ''token'', url_get urlParams ''user_id'') of
        (Some token, Some userId) \<Rightarrow>
          if token \<noteq> [] \<and> userId \<noteq> []
          then api_send (GetProfile (JStr userId)) (setItem ''auth_token'' token w)
          else w\<lparr>oauth_error := ''Missing authentication token''\<rparr>
      | _ \<Rightarrow> w\<lparr>oauth_error := ''Missing authentication token''\<rparr>)"

text \<open>The identity handed to \<open>onLogin\<close>: \<open>{id: userData.id, name: userData.name, email: userData.email}\<close>.\<close>

definition identity_of :: "jsdata \<Rightarrow> js_error + jsdata" where
  "identity_of userData =
     (case get_prop userData ''id'' of
        Inl e \<Rightarrow> Inl e
      | Inr i \<Rightarrow>
          (case get_prop userData ''name'' of
             Inl e \<Rightarrow> Inl e
           | Inr n \<Rightarrow>
               (case get_prop userData ''email'' of
                  Inl e \<Rightarrow> Inl e
                | Inr m \<Rightarrow> Inr (Obj [''id'' \<mapsto> i, ''name'' \<mapsto> n, ''email'' \<mapsto> m]))))"

text \<open>The \<open>then\<close> callback: the exception that leaves it, if any, and the state by then.\<close>

definition OAuthCallback_then ::
  "(jsdata \<Rightarrow> string) \<Rightarrow> jsdata \<Rightarrow> world \<Rightarrow> js_error option \<times> world" where
  "OAuthCallback_then stringify userData w =
     (let w1 = setItem ''user'' (stringify userData) w in
      case identity_of userData of
        Inl e \<Rightarrow> (Some e, w1)
      | Inr ident \<Rightarrow> (None, replaceState ''/'' (handleLogin stringify ident w1)))"

text \<open>The promise chain \<open>getProfile(userId).then(...).catch(...)\<close>, once \<open>fetch\<close> has resolved.\<close>

definition OAuthCallback_response ::
  "(jsdata \<Rightarrow> string) \<Rightarrow> response \<Rightarrow> world \<Rightarrow> world" where
  "OAuthCallback_response stringify r w =
     (case handleResponse r w of
        (Inl e, w1) \<Rightarrow> w1\<lparr>oauth_error := ''Failed to load user profile''\<rparr>
      | (Inr userData, w1) \<Rightarrow>
          (case OAuthCallback_then stringify userData w1 of
             (None, w2) \<Rightarrow> w2
           | (Some e, w2) \<Rightarrow> w2\<lparr>oauth_error := ''Failed to load user profile''\<rparr>))"

section \<open>Application collection cache\<close>

text \<open>
  The clock as one call of \<open>handleAddApplication\<close> reads it: \<open>Date.now()\<close> and two
  \<open>new Date().toISOString()\<close>.
\<close>

record tick =
  date_now :: int
  iso_created :: string
  iso_updated :: string

text \<open>
  \<open>{id: Date.now(), ...appData, created_at: ..., updated_at: ...}\<close>: the fields of
  \<open>appData\<close> win over the \<open>id\<close> written before them and lose to the two written after.
\<close>

definition newApp :: "tick \<Rightarrow> jsobj \<Rightarrow> jsobj" where
  "newApp t appData =
     ([''id'' \<mapsto> JNum (date_now t)] ++ appData)
       (''created_at'' \<mapsto> JStr (iso_created t), ''updated_at'' \<mapsto> JStr (iso_updated t))"

definition setApplications :: "(jsobj list \<Rightarrow> jsobj list) \<Rightarrow> world \<Rightarrow> world" where
  "setApplications f w = w\<lparr>app := (app w)\<lparr>applications := f (applications (app w))\<rparr>\<rparr>"

definition handleAddApplication :: "tick \<Rightarrow> jsobj \<Rightarrow> world \<Rightarrow> world" where
  "handleAddApplication t appData w = setApplications (\<lambda>prev. newApp t appData # prev) w"

text \<open>
  \<open>prev.map(app => app.id === id ? {...app, ...appData, updated_at: ...} : app)\<close>. The
  clock is read at each record that matches: \<open>now i\<close> is its reading at the record of
  index \<open>i\<close>.
\<close>

definition update_record :: "(nat \<Rightarrow> string) \<Rightarrow> jsval \<Rightarrow> jsobj \<Rightarrow> nat \<times> jsobj \<Rightarrow> jsobj" where
  "update_record now ident appData ia =
     (case ia of (i, a) \<Rightarrow>
        if field a ''id'' = ident then (a ++ appData)(''updated_at'' \<mapsto> JStr (now i)) else a)"

definition handleUpdateApplication ::
  "(nat \<Rightarrow> string) \<Rightarrow> jsval \<Rightarrow> jsobj \<Rightarrow> world \<Rightarrow> world" where
  "handleUpdateApplication now ident appData w =
     setApplications (\<lambda>prev. map (update_record now ident appData) (enumerate 0 prev)) w"

definition handleDeleteApplication :: "jsval \<Rightarrow> world \<Rightarrow> world" where
  "handleDeleteApplication ident w =
     setApplications (\<lambda>prev. filter (\<lambda>a. field a ''id'' \<noteq> ident) prev) w"

text \<open>The ids of the cached records, in list order.\<close>

definition ids :: "world \<Rightarrow> jsval list" where
  "ids w = map (\<lambda>a. field a ''id'') (applications (app w))"

section \<open>The Applications page\<close>

definition setIsLoading_page :: "bool \<Rightarrow> world \<Rightarrow> world" where
  "setIsLoading_page b w = w\<lparr>page := (page w)\<lparr>isLoading_page := b\<rparr>\<rparr>"

definition setError_page :: "string \<Rightarrow> world \<Rightarrow> world" where
  "setError_page m w = w\<lparr>page := (page w)\<lparr>error_page := m\<rparr>\<rparr>"

text \<open>\<open>applications.forEach(app => onAddApplication(app))\<close>; \<open>clock i\<close> is the clock at the \<open>i\<close>-th call.\<close>

fun forEach_onAddApplication :: "(nat \<Rightarrow> tick) \<Rightarrow> nat \<Rightarrow> jsobj list \<Rightarrow> world \<Rightarrow> world" where
  "forEach_onAddApplication clock i [] w = w"
| "forEach_onAddApplication clock i (a # as) w =
     forEach_onAddApplication clock (Suc i) as (handleAddApplication (clock i) a w)"

text \<open>\<open>loadApplications\<close> of the page, run when it mounts: up to the \<open>await\<close>, and after it.\<close>

definition page_loadApplications_start :: "world \<Rightarrow> world" where
  "page_loadApplications_start w =
     (let uid = get_prop_opt (user (app w)) ''id'' in
      if \<not> truthy uid then w
      else api_send (ApplicationsGetAll uid) (setError_page [] (setIsLoading_page True w)))"

definition page_loadApplications_settled ::
  "(nat \<Rightarrow> tick) \<Rightarrow> js_error + jsobj list \<Rightarrow> world \<Rightarrow> world" where
  "page_loadApplications_settled clock res w =
     setIsLoading_page False
       (case res of
          Inr fetched \<Rightarrow> forEach_onAddApplication clock 0 fetched w
        | Inl err \<Rightarrow> setError_page (''Failed to load applications: '' @ message err) w)"

text \<open>\<open>handleUpdateApplication\<close> of the page: up to the \<open>await\<close>, and after it.\<close>

definition page_handleUpdateApplication_start :: "jsval \<Rightarrow> jsobj \<Rightarrow> world \<Rightarrow> world" where
  "page_handleUpdateApplication_start ident appData w =
     api_send (ApplicationsUpdate ident appData) (setIsLoading_page True w)"

definition page_handleUpdateApplication_settled ::
  "(nat \<Rightarrow> string) \<Rightarrow> jsval \<Rightarrow> jsobj \<Rightarrow> js_error + jsdata \<Rightarrow> world \<Rightarrow> world" where
  "page_handleUpdateApplication_settled now ident appData res w =
     setIsLoading_page False
       (case res of
          Inr d \<Rightarrow> handleUpdateApplication now ident appData w
        | Inl err \<Rightarrow> setError_page (''Failed to update application: '' @ message err) w)"

subsection \<open>Filtering\<close>
















section \<open>Sample data\<close>

text \<open>A freshly loaded document at the given location, with the given storage.\<close>

definition fresh_world :: "location \<Rightarrow> (string \<rightharpoonup> string) \<Rightarrow> world" where
  "fresh_world l st =
     \<lparr>app = initial_app, page = \<lparr>isLoading_page = False, error_page = []\<rparr>,
      localStorage = st, window_location = l, page_loads = 0, navigated_to = None,
      fetches = [], oauth_error = []\<rparr>"

definition root_location :: location where
  "root_location = \<lparr>pathname = ''/'', search = []\<rparr>"

definition acme :: jsobj where
  "acme = [''id'' \<mapsto> JNum 1, ''company'' \<mapsto> JStr ''Acme'', ''role'' \<mapsto> JStr ''Engineer'',
           ''status'' \<mapsto> JStr ''Applied'', ''source'' \<mapsto> JStr ''manual'']"

definition globex :: jsobj where
  "globex = [''id'' \<mapsto> JNum 2, ''company'' \<mapsto> JStr ''Globex'', ''role'' \<mapsto> JStr ''Data Analyst'',
             ''status'' \<mapsto> JStr ''Interview'', ''source'' \<mapsto> JStr ''manual'']"

text \<open>A signed-in session holding the two records.\<close>

definition signed_in_world :: world where
  "signed_in_world =
     (fresh_world root_location [''auth_token'' \<mapsto> ''tok'', ''user'' \<mapsto> ''{}''])
       \<lparr>app := initial_app\<lparr>isAuthenticated := True,
              user := Obj [''id'' \<mapsto> JNum 7, ''name'' \<mapsto> JStr ''Ann'', ''email'' \<mapsto> JStr ''a@b.com''],
              applications := [acme, globex]\<rparr>\<rparr>"

definition noon :: "nat \<Rightarrow> string" where
  "noon i = ''2024-01-01T12:00:00.000Z''"

definition to_interview :: jsobj where
  "to_interview = [''status'' \<mapsto> JStr ''Interview'']"

definition unauthorized :: response where
  "unauthorized = \<lparr>status = 401, body = Some (Obj [''error'' \<mapsto> JStr ''Token expired''])\<rparr>"

text \<open>The return from the identity provider, and from connecting an email account.\<close>

definition oauth_location :: location where
  "oauth_location = \<lparr>pathname = ''/'', search = [(''token'', ''T1''), (''user_id'', ''7'')]\<rparr>"

definition email_connected_location :: location where
  "email_connected_location = \<lparr>pathname = ''/'', search = [(''success'', ''email_connected'')]\<rparr>"

definition ann_profile :: jsobj where
  "ann_profile = [''id'' \<mapsto> JNum 7, ''name'' \<mapsto> JStr ''Ann'', ''email'' \<mapsto> JStr ''a@b.com'',
                  ''created_at'' \<mapsto> JStr ''2024-01-01'']"

definition profile_reply :: response where
  "profile_reply = \<lparr>status = 200, body = Some (Obj ann_profile)\<rparr>"

text \<open>A stand-in for \<open>JSON.stringify\<close> in the examples: it tells the kinds of value apart.\<close>

fun stringify_kind :: "jsdata \<Rightarrow> string" where
  "stringify_kind (Prim v) = js_to_string v"
| "stringify_kind (Obj ob) = ''{...}''"
| "stringify_kind (Arr xs) = ''[...]''"

text \<open>
  \<open>JSON.parse\<close> on the strings of the examples: an object without fields, \<open>null\<close>, and a
  string that is not JSON.
\<close>

definition parse_sample :: "string \<Rightarrow> jsdata option" where
  "parse_sample s =
     (if s = ''{}'' then Some (Obj Map.empty)
      else if s = ''null'' then Some (Prim JNull)
      else None)"

text \<open>A document whose storage holds a malformed identity and no token.\<close>

definition stale_world :: world where
  "stale_world = fresh_world root_location [''user'' \<mapsto> ''{bad'']"

text \<open>A clock that advances one millisecond per call.\<close>

definition millis :: "nat \<Rightarrow> tick" where
  "millis i = \<lparr>date_now = 1700000000000 + int i,
     iso_created = ''2023-11-14T22:13:20.000Z'', iso_updated = ''2023-11-14T22:13:20.000Z''\<rparr>"

section \<open>Theorems\<close>

text \<open>
  C8. While the session is unauthenticated, whatever page is selected, the view is the
  login form or the registration form, the single exception being the selection
  \<open>oauth-callback\<close>, which renders the callback component inside the layout.
\<close>

theorem unauthenticated_view_forced:
  "\<not> isAuthenticated s \<Longrightarrow>
     (currentPage s \<noteq> ''oauth-callback'' \<longrightarrow> render s \<in> {Login, Register}) \<and>
     (currentPage s = ''oauth-callback'' \<longrightarrow> render s = Layout OAuthCallback) \<and>
     (render s \<notin> {Login, Register} \<longrightarrow> currentPage s = ''oauth-callback'')"
  by (simp add: render_def renderPage_def)

theorem unauthenticated_view_forced_witness:
  "\<not> isAuthenticated initial_app \<and>
     render initial_app = Register \<and>
     render (initial_app\<lparr>currentPage := ''oauth-callback''\<rparr>) = Layout OAuthCallback"
  using unauthenticated_view_forced [of initial_app]
    unauthenticated_view_forced [of "initial_app\<lparr>currentPage := ''oauth-callback''\<rparr>"]
  by (simp add: initial_app_def render_def)

text \<open>
  C9. Logout removes both storage keys, empties the identity and the cached application
  records, leaves the session unauthenticated on the login page, and doing it twice is the
  same as doing it once.
\<close>

theorem logout_clears_idempotent:
  "localStorage (handleLogout w) ''auth_token'' = None \<and>
   localStorage (handleLogout w) ''user'' = None \<and>
   user (app (handleLogout w)) = Prim JNull \<and>
   applications (app (handleLogout w)) = [] \<and>
   \<not> isAuthenticated (app (handleLogout w)) \<and>
   currentPage (app (handleLogout w)) = ''login'' \<and>
   render (app (handleLogout w)) = Login \<and>
   handleLogout (handleLogout w) = handleLogout w"
  by (simp add: handleLogout_def removeItem_def render_def)

subsection \<open>Updating a record\<close>

lemma update_apps:
  "applications (app (handleUpdateApplication now ident appData w)) =
     map (update_record now ident appData) (enumerate 0 (applications (app w)))"
  by (simp add: handleUpdateApplication_def setApplications_def)

text \<open>
  C10. An update keeps the length of the list and the place of every record: the record
  at each index is the old one, merged with the patch if its \<open>id\<close> is the given one and
  untouched otherwise. When no record has the given \<open>id\<close>, nothing changes at all.
\<close>

theorem update_frame:
  "length (applications (app (handleUpdateApplication now ident appData w)))
     = length (applications (app w)) \<and>
   (\<forall>i < length (applications (app w)).
      applications (app (handleUpdateApplication now ident appData w)) ! i =
        (if field (applications (app w) ! i) ''id'' = ident
         then (applications (app w) ! i ++ appData)(''updated_at'' \<mapsto> JStr (now i))
         else applications (app w) ! i)) \<and>
   ((\<forall>a \<in> set (applications (app w)). field a ''id'' \<noteq> ident) \<longrightarrow>
      handleUpdateApplication now ident appData w = w)"
proof (intro conjI allI impI)
  show "length (applications (app (handleUpdateApplication now ident appData w)))
     = length (applications (app w))"
    by (simp add: update_apps)
next
  fix i assume "i < length (applications (app w))"
  then show "applications (app (handleUpdateApplication now ident appData w)) ! i =
        (if field (applications (app w) ! i) ''id'' = ident
         then (applications (app w) ! i ++ appData)(''updated_at'' \<mapsto> JStr (now i))
         else applications (app w) ! i)"
    by (simp add: update_apps nth_enumerate_eq update_record_def)
next
  assume none: "\<forall>a \<in> set (applications (app w)). field a ''id'' \<noteq> ident"
  have "map (update_record now ident appData) (enumerate n xs) = xs"
    if "\<forall>a \<in> set xs. field a ''id'' \<noteq> ident" for xs n
    using that by (induction xs arbitrary: n) (simp_all add: update_record_def)
  with none show "handleUpdateApplication now ident appData w = w"
    by (simp add: handleUpdateApplication_def setApplications_def)
qed

theorem update_frame_witness:
  "length (applications (app (handleUpdateApplication noon (JNum 1) to_interview signed_in_world))) = 2 \<and>
   applications (app (handleUpdateApplication noon (JNum 1) to_interview signed_in_world)) ! 1 = globex \<and>
   field (applications (app (handleUpdateApplication noon (JNum 1) to_interview signed_in_world)) ! 0) ''status''
     = JStr ''Interview'' \<and>
   handleUpdateApplication noon (JNum 9) to_interview signed_in_world = signed_in_world"
  using update_frame [of noon "JNum 1" to_interview signed_in_world]
    update_frame [of noon "JNum 9" to_interview signed_in_world]
  by (simp add: signed_in_world_def fresh_world_def initial_app_def acme_def globex_def field_def
      to_interview_def)

subsection \<open>Authorization failure\<close>

lemma handleResponse_401:
  "status r = 401 \<Longrightarrow>
     (\<exists>e. fst (handleResponse r w) = Inl e) \<and>
     snd (handleResponse r w) = assign_href ''/login'' (removeItem ''user'' (removeItem ''auth_token'' w))"
  by (simp add: handleResponse_def ok_def Let_def split: sum.splits)

lemma redirect_Inl: "redirect_to_authorization (Inl e, w) = (Inl e, w)"
  by (simp add: redirect_to_authorization_def)

lemma api_receive_401:
  assumes "status r = 401"
  shows "(\<exists>e. fst (api_receive c r w) = Inl e) \<and>
     snd (api_receive c r w) = assign_href ''/login'' (removeItem ''user'' (removeItem ''auth_token'' w))"
proof -
  obtain e where e: "fst (handleResponse r w) = Inl e"
    and s: "snd (handleResponse r w)
      = assign_href ''/login'' (removeItem ''user'' (removeItem ''auth_token'' w))"
    using handleResponse_401 [OF assms] by blast
  then have hr: "handleResponse r w
      = (Inl e, assign_href ''/login'' (removeItem ''user'' (removeItem ''auth_token'' w)))"
    by (metis prod.collapse)
  show ?thesis
    by (cases c) (simp_all add: hr redirect_Inl)
qed

text \<open>
  C2, as amended. In the client that attaches the token, whatever call received the
  response: on status 401 the call throws, both storage keys are gone, the storage is
  what logout leaves, and the window was sent to \<open>/login\<close> by a document load.
\<close>

theorem unauthorized_clears_session:
  "status r = 401 \<Longrightarrow>
     (\<exists>e. fst (api_receive c r w) = Inl e) \<and>
     localStorage (snd (api_receive c r w)) ''auth_token'' = None \<and>
     localStorage (snd (api_receive c r w)) ''user'' = None \<and>
     localStorage (snd (api_receive c r w)) = localStorage (handleLogout w) \<and>
     window_location (snd (api_receive c r w)) = \<lparr>pathname = ''/login'', search = []\<rparr> \<and>
     page_loads (snd (api_receive c r w)) = Suc (page_loads w)"
  using api_receive_401 [of r c w]
  by (simp add: assign_href_def removeItem_def handleLogout_def)

theorem unauthorized_clears_session_witness:
  "status unauthorized = 401 \<and>
   fst (api_receive (ApplicationsGetAll (JNum 7)) unauthorized signed_in_world)
     = Inl (Error ''Token expired'') \<and>
   localStorage (snd (api_receive (ApplicationsGetAll (JNum 7)) unauthorized signed_in_world))
     ''auth_token'' = None \<and>
   pathname (window_location (snd (api_receive (ApplicationsGetAll (JNum 7)) unauthorized signed_in_world)))
     = ''/login''"
  using unauthorized_clears_session [of unauthorized "ApplicationsGetAll (JNum 7)" signed_in_world]
  by (simp add: unauthorized_def handleResponse_def ok_def response_json_def thrown_error_def field_def
      assign_href_def removeItem_def handleLogout_def)

text \<open>
  C2, as stated, fails on the older copy of the client: there a 401 response to a signed-in
  session throws the server's message and leaves the token, the identity and the location
  as they were.
\<close>

theorem legacy_wrapper_keeps_session:
  "status unauthorized = 401 \<and>
   fst (handleResponse_legacy unauthorized signed_in_world) = Inl (Error ''Token expired'') \<and>
   snd (handleResponse_legacy unauthorized signed_in_world) = signed_in_world \<and>
   localStorage signed_in_world ''auth_token'' = Some ''tok'' \<and>
   localStorage signed_in_world ''user'' \<noteq> None \<and>
   pathname (window_location signed_in_world) \<noteq> ''/login''"
  by (simp add: unauthorized_def handleResponse_legacy_def ok_def response_json_def thrown_error_def
      field_def signed_in_world_def fresh_world_def root_location_def)

subsection \<open>Return from connecting an email account\<close>

text \<open>
  C7. The location carries \<open>success=email_connected\<close> or a non-empty \<open>error\<close>, and not
  the pair \<open>token\<close>, \<open>user_id\<close> (which the effect tests first). If the session is
  authenticated the effect selects the profile page and replaces the location by
  \<open>/profile\<close> without a query and without a document load, and running it again changes
  nothing; if the session is not authenticated the effect does nothing.
\<close>

theorem email_link_result:
  assumes "\<not> (truthy_str (url_get (search (window_location w)) ''token'')
              \<and> truthy_str (url_get (search (window_location w)) ''user_id''))"
    and "url_get (search (window_location w)) ''success'' = Some ''email_connected''
         \<or> truthy_str (url_get (search (window_location w)) ''error'')"
  shows "(isAuthenticated (app w) \<longrightarrow>
            currentPage (app (url_effect w)) = ''profile'' \<and>
            window_location (url_effect w) = \<lparr>pathname = ''/profile'', search = []\<rparr> \<and>
            url_get (search (window_location (url_effect w))) ''success'' = None \<and>
            url_get (search (window_location (url_effect w))) ''error'' = None \<and>
            page_loads (url_effect w) = page_loads w \<and>
            url_effect (url_effect w) = url_effect w) \<and>
         (\<not> isAuthenticated (app w) \<longrightarrow> url_effect w = w)"
  using assms
  by (auto simp add: url_effect_def email_callback_url_def replaceState_def setCurrentPage_def
      url_get_def truthy_str_def Let_def)

theorem email_link_result_witness:
  "url_get (search email_connected_location) ''success'' = Some ''email_connected'' \<and>
   url_get (search email_connected_location) ''token'' = None \<and>
   isAuthenticated (app (signed_in_world\<lparr>window_location := email_connected_location\<rparr>)) \<and>
   \<not> isAuthenticated (app (fresh_world email_connected_location Map.empty)) \<and>
   currentPage (app (url_effect (signed_in_world\<lparr>window_location := email_connected_location\<rparr>)))
     = ''profile'' \<and>
   search (window_location (url_effect (signed_in_world\<lparr>window_location := email_connected_location\<rparr>)))
     = [] \<and>
   url_effect (fresh_world email_connected_location Map.empty)
     = fresh_world email_connected_location Map.empty"
  using email_link_result [of "signed_in_world\<lparr>window_location := email_connected_location\<rparr>"]
    email_link_result [of "fresh_world email_connected_location Map.empty"]
  by (simp add: signed_in_world_def fresh_world_def email_connected_location_def url_get_def
      truthy_str_def initial_app_def)

subsection \<open>Filtering\<close>





















subsection \<open>Return from the identity provider\<close>

lemma url_effect_oauth:
  assumes "url_get (search (window_location w)) ''token'' = Some T" "T \<noteq> []"
    and "url_get (search (window_location w)) ''user_id'' = Some U" "U \<noteq> []"
  shows "url_effect w = setCurrentPage ''oauth-callback'' w"
  using assms by (simp add: url_effect_def truthy_str_def)

lemma render_oauth: "render (app (setCurrentPage ''oauth-callback'' w)) = Layout OAuthCallback"
  by (simp add: render_def renderPage_def setCurrentPage_def)

lemma OAuthCallback_effect_exchange:
  assumes "url_get (search (window_location w)) ''token'' = Some T" "T \<noteq> []"
    and "url_get (search (window_location w)) ''user_id'' = Some U" "U \<noteq> []"
  shows "OAuthCallback_effect w =
     (setItem ''auth_token'' T w)\<lparr>fetches := \<lparr>call = GetProfile (JStr U), bearer = Some T\<rparr> # fetches w\<rparr>"
  using assms
  by (simp add: OAuthCallback_effect_def authenticatedFetch_def getToken_def setItem_def truthy_str_def)

lemma OAuthCallback_effect_stripped:
  assumes "url_get (search (window_location w)) ''token'' = None
         \<or> url_get (search (window_location w)) ''user_id'' = None"
  shows "OAuthCallback_effect w = w\<lparr>oauth_error := ''Missing authentication token''\<rparr>"
  using assms by (auto simp add: OAuthCallback_effect_def Let_def split: option.splits)

lemma url_effect_stripped:
  assumes "url_get (search (window_location w)) ''token'' = None
         \<or> url_get (search (window_location w)) ''user_id'' = None"
  shows "currentPage (app (url_effect w)) = ''oauth-callback'' \<longrightarrow> currentPage (app w) = ''oauth-callback''"
  using assms
  by (auto simp add: url_effect_def truthy_str_def replaceState_def setCurrentPage_def)

lemma OAuthCallback_response_success:
  assumes "ok r" "body r = Some (Obj u)"
  shows "OAuthCallback_response stringify r w =
     replaceState ''/''
       (handleLogin stringify
          (Obj [''id'' \<mapsto> field u ''id'', ''name'' \<mapsto> field u ''name'', ''email'' \<mapsto> field u ''email''])
          (setItem ''user'' (stringify (Obj u)) w))"
  using assms
  by (simp add: OAuthCallback_response_def handleResponse_def response_json_def
      OAuthCallback_then_def identity_of_def)

lemma handleLogin_state:
  "isAuthenticated (app (handleLogin stringify d w)) \<and> user (app (handleLogin stringify d w)) = d
   \<and> currentPage (app (handleLogin stringify d w)) = ''dashboard''
   \<and> localStorage (handleLogin stringify d w) = (localStorage w)(''user'' \<mapsto> stringify d)
   \<and> window_location (handleLogin stringify d w) = window_location w"
  by (auto simp add: handleLogin_def setItem_def loadApplications_start_def authenticatedFetch_def Let_def
      split: sum.splits)

text \<open>
  C6. The location of \<open>w\<close> carries a non-empty \<open>token=T\<close> and a non-empty \<open>user_id=U\<close>;
  whether \<open>w\<close> is authenticated or not, the effect of \<open>App\<close> selects \<open>oauth-callback\<close>
  and the callback component is rendered; its effect stores the token and requests the
  profile of \<open>U\<close> with that token. When the request succeeds with the profile of \<open>U\<close> (an
  object whose \<open>id\<close> reads \<open>U\<close>), in whatever state \<open>v\<close> it arrives, login is called with an
  identity holding that \<open>id\<close>, the session is authenticated, and the location is replaced
  by \<open>/\<close> with no query and no document load. In a state \<open>w'\<close> whose location lacks one
  of the two parameters the callback effect sends no request and writes no storage, and
  the effect of \<open>App\<close> does not select \<open>oauth-callback\<close>.
\<close>

theorem oauth_resumption:
  assumes "url_get (search (window_location w)) ''token'' = Some T" and "T \<noteq> []"
    and "url_get (search (window_location w)) ''user_id'' = Some U" and "U \<noteq> []"
    and "ok r" and "body r = Some (Obj u)" and "js_to_string (field u ''id'') = U"
    and "url_get (search (window_location w')) ''token'' = None
         \<or> url_get (search (window_location w')) ''user_id'' = None"
  shows "currentPage (app (url_effect w)) = ''oauth-callback'' \<and>
     render (app (url_effect w)) = Layout OAuthCallback \<and>
     localStorage (OAuthCallback_effect (url_effect w)) ''auth_token'' = Some T \<and>
     fetches (OAuthCallback_effect (url_effect w))
       = \<lparr>call = GetProfile (JStr U), bearer = Some T\<rparr> # fetches w \<and>
     (\<exists>ident. OAuthCallback_response stringify r v
          = replaceState ''/'' (handleLogin stringify (Obj ident) (setItem ''user'' (stringify (Obj u)) v))
        \<and> ident ''id'' = Some (field u ''id'') \<and> js_to_string (field ident ''id'') = U
        \<and> user (app (OAuthCallback_response stringify r v)) = Obj ident) \<and>
     isAuthenticated (app (OAuthCallback_response stringify r v)) \<and>
     window_location (OAuthCallback_response stringify r v) = \<lparr>pathname = ''/'', search = []\<rparr> \<and>
     page_loads (OAuthCallback_response stringify r v) = page_loads v \<and>
     fetches (OAuthCallback_effect w') = fetches w' \<and>
     localStorage (OAuthCallback_effect w') = localStorage w' \<and>
     (currentPage (app (url_effect w')) = ''oauth-callback'' \<longrightarrow> currentPage (app w') = ''oauth-callback'')"
proof -
  have page: "url_effect w = setCurrentPage ''oauth-callback'' w"
    using assms(1-4) by (rule url_effect_oauth)
  have same: "search (window_location (setCurrentPage ''oauth-callback'' w)) = search (window_location w)"
    by (simp add: setCurrentPage_def)
  have eff: "OAuthCallback_effect (url_effect w) =
     (setItem ''auth_token'' T (url_effect w))
       \<lparr>fetches := \<lparr>call = GetProfile (JStr U), bearer = Some T\<rparr> # fetches (url_effect w)\<rparr>"
    using assms(1-4) by (intro OAuthCallback_effect_exchange) (simp_all add: page same)
  let ?ident = "[''id'' \<mapsto> field u ''id'', ''name'' \<mapsto> field u ''name'', ''email'' \<mapsto> field u ''email'']"
  have resp: "OAuthCallback_response stringify r v
     = replaceState ''/'' (handleLogin stringify (Obj ?ident) (setItem ''user'' (stringify (Obj u)) v))"
    using assms(5,6) by (rule OAuthCallback_response_success)
  have login: "isAuthenticated (app (OAuthCallback_response stringify r v))"
    "user (app (OAuthCallback_response stringify r v)) = Obj ?ident"
    "window_location (OAuthCallback_response stringify r v) = \<lparr>pathname = ''/'', search = []\<rparr>"
    using handleLogin_state [of stringify "Obj ?ident" "setItem ''user'' (stringify (Obj u)) v"]
    by (simp_all add: resp replaceState_def)
  have loads: "page_loads (OAuthCallback_response stringify r v) = page_loads v"
    by (simp add: resp replaceState_def handleLogin_def setItem_def loadApplications_start_def
        authenticatedFetch_def Let_def)
  have ident: "?ident ''id'' = Some (field u ''id'')" "js_to_string (field ?ident ''id'') = U"
    using assms(7) by (simp_all add: field_def)
  have stripped: "OAuthCallback_effect w' = w'\<lparr>oauth_error := ''Missing authentication token''\<rparr>"
    using assms(8) by (rule OAuthCallback_effect_stripped)
  show ?thesis
  proof (intro conjI)
    show "currentPage (app (url_effect w)) = ''oauth-callback''"
      by (simp add: page setCurrentPage_def)
    show "render (app (url_effect w)) = Layout OAuthCallback"
      by (simp add: page render_oauth)
    show "localStorage (OAuthCallback_effect (url_effect w)) ''auth_token'' = Some T"
      unfolding eff by (simp add: setItem_def)
    show "fetches (OAuthCallback_effect (url_effect w))
       = \<lparr>call = GetProfile (JStr U), bearer = Some T\<rparr> # fetches w"
      unfolding eff by (simp add: page setCurrentPage_def)
    show "\<exists>ident. OAuthCallback_response stringify r v
          = replaceState ''/'' (handleLogin stringify (Obj ident) (setItem ''user'' (stringify (Obj u)) v))
        \<and> ident ''id'' = Some (field u ''id'') \<and> js_to_string (field ident ''id'') = U
        \<and> user (app (OAuthCallback_response stringify r v)) = Obj ident"
      using resp ident login(2) by blast
    show "isAuthenticated (app (OAuthCallback_response stringify r v))"
      by (rule login(1))
    show "window_location (OAuthCallback_response stringify r v) = \<lparr>pathname = ''/'', search = []\<rparr>"
      by (rule login(3))
    show "page_loads (OAuthCallback_response stringify r v) = page_loads v"
      by (rule loads)
    show "fetches (OAuthCallback_effect w') = fetches w'"
      by (simp add: stripped)
    show "localStorage (OAuthCallback_effect w') = localStorage w'"
      by (simp add: stripped)
    show "currentPage (app (url_effect w')) = ''oauth-callback'' \<longrightarrow> currentPage (app w') = ''oauth-callback''"
      by (rule url_effect_stripped [OF assms(8)])
  qed
qed

lemma oauth_sample:
  "url_get (search (window_location (fresh_world oauth_location Map.empty))) ''token'' = Some ''T1''"
  "url_get (search (window_location (fresh_world oauth_location Map.empty))) ''user_id'' = Some ''7''"
  "ok profile_reply" "body profile_reply = Some (Obj ann_profile)"
  "js_to_string (field ann_profile ''id'') = ''7''"
  by (simp_all add: fresh_world_def oauth_location_def url_get_def profile_reply_def ok_def
      ann_profile_def field_def digits.simps)

theorem oauth_resumption_witness:
  "url_get (search (window_location (fresh_world oauth_location Map.empty))) ''token'' = Some ''T1'' \<and>
   url_get (search (window_location (fresh_world oauth_location Map.empty))) ''user_id'' = Some ''7'' \<and>
   ok profile_reply \<and>
   url_get (search (window_location (fresh_world root_location Map.empty))) ''token'' = None \<and>
   currentPage (app (url_effect (fresh_world oauth_location Map.empty))) = ''oauth-callback'' \<and>
   localStorage (OAuthCallback_effect (url_effect (fresh_world oauth_location Map.empty))) ''auth_token''
     = Some ''T1'' \<and>
   get_prop (user (app (OAuthCallback_response stringify_kind profile_reply
       (OAuthCallback_effect (url_effect (fresh_world oauth_location Map.empty)))))) ''id'' = Inr (JNum 7) \<and>
   search (window_location (OAuthCallback_response stringify_kind profile_reply
       (OAuthCallback_effect (url_effect (fresh_world oauth_location Map.empty))))) = [] \<and>
   fetches (OAuthCallback_effect (fresh_world root_location Map.empty)) = []"
  using oauth_resumption [of "fresh_world oauth_location Map.empty" "''T1''" "''7''" profile_reply
      ann_profile "fresh_world root_location Map.empty" stringify_kind
      "OAuthCallback_effect (url_effect (fresh_world oauth_location Map.empty))"]
    oauth_sample
  by (auto simp add: fresh_world_def root_location_def url_get_def field_def ann_profile_def)

subsection \<open>Restoring the session\<close>

lemma restore_absent:
  assumes "\<not> truthy_str (localStorage w ''auth_token'') \<or> \<not> truthy_str (localStorage w ''user'')"
  shows "restore parse w = Inr w"
  using assms by (auto simp add: restore_def truthy_str_def split: option.splits)

lemma restore_malformed:
  assumes "localStorage w ''auth_token'' = Some token" "token \<noteq> []"
    and "localStorage w ''user'' = Some s" "s \<noteq> []" and "parse s = None"
  shows "restore parse w = Inr (removeItem ''user'' (removeItem ''auth_token'' w))"
  using assms by (simp add: restore_def restore_try_def)

lemma get_prop_total:
  assumes "d \<noteq> Prim JNull" "d \<noteq> Prim JUndefined"
  shows "\<exists>v. get_prop d k = Inr v"
  using assms by (cases "(d, k)" rule: get_prop.cases) auto

lemma restore_parsed:
  assumes "localStorage w ''auth_token'' = Some token" "token \<noteq> []"
    and "localStorage w ''user'' = Some s" "s \<noteq> []" and "parse s = Some d"
    and "d \<noteq> Prim JNull" "d \<noteq> Prim JUndefined"
  shows "\<exists>w'. restore parse w = Inr w' \<and> isAuthenticated (app w') \<and> user (app w') = d
           \<and> localStorage w' = localStorage w"
proof -
  obtain v where v: "get_prop d ''id'' = Inr v"
    using get_prop_total [OF assms(6,7)] by blast
  show ?thesis
    using assms(1-5)
    by (simp add: restore_def restore_try_def v Let_def setCurrentPage_def loadApplications_start_def
        authenticatedFetch_def)
qed

lemma restore_total: "\<exists>w'. restore parse w = Inr w'"
  by (auto simp add: restore_def split: option.splits prod.splits)

lemma restore_authenticated_only_if:
  assumes "restore parse w = Inr w'" "\<not> isAuthenticated (app w)" "isAuthenticated (app w')"
  shows "truthy_str (localStorage w ''auth_token'') \<and>
     (\<exists>s d. localStorage w ''user'' = Some s \<and> s \<noteq> [] \<and> parse s = Some d)"
proof (rule ccontr)
  assume neg: "\<not> ?thesis"
  show False
  proof (cases "truthy_str (localStorage w ''auth_token'') \<and> truthy_str (localStorage w ''user'')")
    case False
    then have "restore parse w = Inr w"
      by (intro restore_absent) simp
    with assms show False by simp
  next
    case True
    then obtain token s where ts: "localStorage w ''auth_token'' = Some token" "token \<noteq> []"
      "localStorage w ''user'' = Some s" "s \<noteq> []"
      by (auto simp add: truthy_str_def split: option.splits)
    with neg True have "parse s = None" by auto
    then have "restore parse w = Inr (removeItem ''user'' (removeItem ''auth_token'' w))"
      using ts by (intro restore_malformed)
    with assms show False by (auto simp add: removeItem_def)
  qed
qed

text \<open>
  C1, as amended. The mount effect never throws. With the token or the identity absent
  (or empty) it changes nothing, storage included. With both present and an identity
  string that does not parse, it removes both storage keys and leaves the state of \<open>App\<close>
  as it was. With both present and an identity that parses to a value other than
  \<open>null\<close>, the session is authenticated with that value as identity and the storage is
  untouched. A session that was unauthenticated becomes authenticated only when both
  are present and the identity parses.
\<close>

theorem restore_session:
  "\<exists>w'. restore parse w = Inr w' \<and>
     (\<not> truthy_str (localStorage w ''auth_token'') \<or> \<not> truthy_str (localStorage w ''user'')
        \<longrightarrow> w' = w) \<and>
     (\<forall>s. truthy_str (localStorage w ''auth_token'') \<and> localStorage w ''user'' = Some s \<and> s \<noteq> []
        \<longrightarrow> (parse s = None \<longrightarrow> w' = removeItem ''user'' (removeItem ''auth_token'' w)) \<and>
            (\<forall>d. parse s = Some d \<and> d \<noteq> Prim JNull \<and> d \<noteq> Prim JUndefined
               \<longrightarrow> isAuthenticated (app w') \<and> user (app w') = d
                   \<and> localStorage w' = localStorage w)) \<and>
     (\<not> isAuthenticated (app w) \<and> isAuthenticated (app w')
        \<longrightarrow> truthy_str (localStorage w ''auth_token'') \<and>
            (\<exists>s d. localStorage w ''user'' = Some s \<and> s \<noteq> [] \<and> parse s = Some d))"
proof -
  obtain w' where w': "restore parse w = Inr w'"
    using restore_total by blast
  have absent: "w' = w"
    if "\<not> truthy_str (localStorage w ''auth_token'') \<or> \<not> truthy_str (localStorage w ''user'')"
    using restore_absent [OF that, of parse] w' by simp
  have malformed: "w' = removeItem ''user'' (removeItem ''auth_token'' w)"
    if "truthy_str (localStorage w ''auth_token'')" "localStorage w ''user'' = Some s" "s \<noteq> []"
      "parse s = None" for s
  proof -
    from that(1) obtain token where "localStorage w ''auth_token'' = Some token" "token \<noteq> []"
      by (auto simp add: truthy_str_def split: option.splits)
    then show ?thesis
      using restore_malformed [of w token s parse] that w' by simp
  qed
  have parsed: "isAuthenticated (app w') \<and> user (app w') = d \<and> localStorage w' = localStorage w"
    if "truthy_str (localStorage w ''auth_token'')" "localStorage w ''user'' = Some s" "s \<noteq> []"
      "parse s = Some d" "d \<noteq> Prim JNull" "d \<noteq> Prim JUndefined" for s d
  proof -
    from that(1) obtain token where "localStorage w ''auth_token'' = Some token" "token \<noteq> []"
      by (auto simp add: truthy_str_def split: option.splits)
    then show ?thesis
      using restore_parsed [of w token s parse d] that w' by auto
  qed
  have only_if: "truthy_str (localStorage w ''auth_token'') \<and>
       (\<exists>s d. localStorage w ''user'' = Some s \<and> s \<noteq> [] \<and> parse s = Some d)"
    if "\<not> isAuthenticated (app w)" "isAuthenticated (app w')"
    using restore_authenticated_only_if [OF w' that] .
  show ?thesis
    using w' absent malformed parsed only_if by blast
qed

theorem restore_session_witness:
  "restore parse_sample (fresh_world root_location [''auth_token'' \<mapsto> ''tok'', ''user'' \<mapsto> ''{}''])
     = Inr ((fresh_world root_location [''auth_token'' \<mapsto> ''tok'', ''user'' \<mapsto> ''{}''])
             \<lparr>app := initial_app\<lparr>user := Obj Map.empty, isAuthenticated := True\<rparr>\<rparr>) \<and>
   restore parse_sample (fresh_world root_location [''auth_token'' \<mapsto> ''tok'', ''user'' \<mapsto> ''{bad''])
     = Inr (fresh_world root_location Map.empty) \<and>
   restore parse_sample stale_world = Inr stale_world"
  using restore_session [of parse_sample "fresh_world root_location [''auth_token'' \<mapsto> ''tok'', ''user'' \<mapsto> ''{}'']"]
   restore_session [of parse_sample "fresh_world root_location [''auth_token'' \<mapsto> ''tok'', ''user'' \<mapsto> ''{bad'']"]
   restore_session [of parse_sample stale_world]
  by (simp add: stale_world_def fresh_world_def parse_sample_def truthy_str_def removeItem_def initial_app_def
      restore_def restore_try_def signed_in_world_def root_location_def email_callback_url_def url_get_def field_def)

text \<open>
  An identity string that parses to \<open>null\<close>, with a token present: the state has been set
  to authenticated before reading \<open>userData.id\<close> throws, and the handler of the exception
  then removes both storage keys.
\<close>

lemma restore_null_identity:
  "restore parse_sample (fresh_world root_location [''auth_token'' \<mapsto> ''tok'', ''user'' \<mapsto> ''null''])
     = Inr ((fresh_world root_location Map.empty)
             \<lparr>app := initial_app\<lparr>user := Prim JNull, isAuthenticated := True\<rparr>\<rparr>)"
  by (simp add: fresh_world_def parse_sample_def removeItem_def initial_app_def restore_def
      restore_try_def root_location_def email_callback_url_def url_get_def truthy_str_def)

text \<open>
  C1, as stated, fails where the token is absent: a malformed identity is then left in
  storage, since the effect does nothing at all.
\<close>

theorem stale_identity_not_cleared:
  "localStorage stale_world ''auth_token'' = None \<and>
   localStorage stale_world ''user'' = Some ''{bad'' \<and>
   parse_sample ''{bad'' = None \<and>
   restore parse_sample stale_world = Inr stale_world \<and>
   localStorage stale_world ''user'' \<noteq> None"
  by (simp add: stale_world_def fresh_world_def parse_sample_def restore_def)

subsection \<open>Updating through the page\<close>

lemma page_start_state:
  "app (page_handleUpdateApplication_start ident appData w) = app w \<and>
   localStorage (page_handleUpdateApplication_start ident appData w) = localStorage w \<and>
   isLoading_page (page (page_handleUpdateApplication_start ident appData w)) \<and>
   fetches (page_handleUpdateApplication_start ident appData w)
     = \<lparr>call = ApplicationsUpdate ident appData,
         bearer = (if truthy_str (getToken w) then getToken w else None)\<rparr> # fetches w"
  by (simp add: page_handleUpdateApplication_start_def authenticatedFetch_def setIsLoading_page_def
      getToken_def)

text \<open>
  C4, as amended. The page's update first sends the remote update and waits: until the
  call settles the cache is what it was. When the call succeeds the patch is merged into
  the matching records and their \<open>updated_at\<close> is bumped; when it fails the cache is left
  as it was, nothing having been applied, and the message
  \<open>Failed to update application: ...\<close> is shown.
\<close>

theorem update_after_remote:
  "applications (app (page_handleUpdateApplication_start ident appData w)) = applications (app w) \<and>
   fetches (page_handleUpdateApplication_start ident appData w)
     = \<lparr>call = ApplicationsUpdate ident appData,
         bearer = (if truthy_str (getToken w) then getToken w else None)\<rparr> # fetches w \<and>
   page_handleUpdateApplication_settled now ident appData (Inr d) w
     = setIsLoading_page False (handleUpdateApplication now ident appData w) \<and>
   applications (app (page_handleUpdateApplication_settled now ident appData (Inr d) w))
     = map (update_record now ident appData) (enumerate 0 (applications (app w))) \<and>
   applications (app (page_handleUpdateApplication_settled now ident appData (Inl err) w))
     = applications (app w) \<and>
   error_page (page (page_handleUpdateApplication_settled now ident appData (Inl err) w))
     = ''Failed to update application: '' @ message err"
  using page_start_state [of ident appData w]
  by (simp add: page_handleUpdateApplication_settled_def setIsLoading_page_def setError_page_def
      handleUpdateApplication_def setApplications_def)

text \<open>
  C4, as stated, fails: while the remote update of record 1 is pending its cached status
  is still \<open>Applied\<close>, not the patch's \<open>Interview\<close> that the merge would give; and after
  the call has failed the cache is the original one.
\<close>

theorem update_not_optimistic:
  "field (hd (applications (app signed_in_world))) ''id'' = JNum 1 \<and>
   field (hd (applications (app (handleUpdateApplication noon (JNum 1) to_interview signed_in_world))))
      ''status'' = JStr ''Interview'' \<and>
   field (hd (applications (app (page_handleUpdateApplication_start (JNum 1) to_interview signed_in_world))))
      ''status'' = JStr ''Applied'' \<and>
   applications (app (page_handleUpdateApplication_settled noon (JNum 1) to_interview
       (Inl (Error ''Network down''))
       (page_handleUpdateApplication_start (JNum 1) to_interview signed_in_world)))
     = applications (app signed_in_world)"
  by (simp add: page_handleUpdateApplication_start_def page_handleUpdateApplication_settled_def
      setIsLoading_page_def setError_page_def authenticatedFetch_def handleUpdateApplication_def
      setApplications_def update_record_def signed_in_world_def fresh_world_def initial_app_def
      acme_def globex_def to_interview_def field_def)

subsection \<open>The cache under add, update, remove and load\<close>

lemma add_prepends:
  "applications (app (handleAddApplication t appData w)) = newApp t appData # applications (app w)"
  by (simp add: handleAddApplication_def setApplications_def)

lemma newApp_id:
  "field (newApp t appData) ''id'' = (case appData ''id'' of None \<Rightarrow> JNum (date_now t) | Some v \<Rightarrow> v)"
  by (simp add: newApp_def field_def map_add_def split: option.splits)

lemma ids_add: "ids (handleAddApplication t appData w) = field (newApp t appData) ''id'' # ids w"
  by (simp add: ids_def add_prepends)

lemma ids_delete: "ids (handleDeleteApplication ident w) = filter (\<lambda>i. i \<noteq> ident) (ids w)"
  by (simp add: ids_def handleDeleteApplication_def setApplications_def filter_map comp_def)

lemma ids_update:
  assumes "appData ''id'' = None"
  shows "ids (handleUpdateApplication now ident appData w) = ids w"
proof -
  have "map (\<lambda>a. field a ''id'') (map (update_record now ident appData) (enumerate n xs))
      = map (\<lambda>a. field a ''id'') xs" for xs n
    using assms
    by (induction xs arbitrary: n) (simp_all add: update_record_def field_def map_add_def)
  then show ?thesis
    by (simp add: ids_def update_apps)
qed

lemma forEach_prepends:
  "ids (forEach_onAddApplication clock i fetched w)
     = rev (map (\<lambda>(k, a). field (newApp (clock k) a) ''id'') (enumerate i fetched)) @ ids w"
  by (induction fetched arbitrary: i w) (simp_all add: ids_add)

text \<open>
  What does hold of the cache: an add puts its record first, where updates and removals
  of other ids leave it; a removal and an update whose patch has no \<open>id\<close> keep the ids
  distinct, and so does an add whose id is not yet in the cache.
\<close>

lemma cache_steps:
  "hd (applications (app (handleAddApplication t appData w))) = newApp t appData"
  "distinct (ids w) \<Longrightarrow> distinct (ids (handleDeleteApplication ident w))"
  "appData ''id'' = None \<Longrightarrow> distinct (ids w) \<Longrightarrow> distinct (ids (handleUpdateApplication now ident appData w))"
  "distinct (ids w) \<Longrightarrow> field (newApp t appData) ''id'' \<notin> set (ids w)
     \<Longrightarrow> distinct (ids (handleAddApplication t appData w))"
  by (simp_all add: add_prepends ids_delete ids_update ids_add)

text \<open>
  C3 fails on the load of the page. \<open>App\<close> has loaded the two records of the server; the
  page then loads them again and feeds each through add: the cache holds four records,
  two with id 1 and two with id 2.
\<close>

theorem page_load_duplicates_ids:
  "ids (loadApplications_settled (Inr [acme, globex]) signed_in_world) = [JNum 1, JNum 2] \<and>
   ids (page_loadApplications_settled millis (Inr [acme, globex])
          (loadApplications_settled (Inr [acme, globex]) signed_in_world))
     = [JNum 2, JNum 1, JNum 1, JNum 2] \<and>
   \<not> distinct (ids (page_loadApplications_settled millis (Inr [acme, globex])
          (loadApplications_settled (Inr [acme, globex]) signed_in_world)))"
  by (simp add: page_loadApplications_settled_def loadApplications_settled_def setIsLoading_page_def
      ids_def handleAddApplication_def setApplications_def newApp_def field_def
      acme_def globex_def map_add_def)

end
